theory Spec2Isabelle
  imports Complex_Main
begin

section \<open>Circular aperture photometry on Healpix maps: the model of haperflux.py\<close>

text \<open>
  The module has four functions: \<open>planckcorr\<close>, \<open>convertToJy\<close>, \<open>healpix_phot\<close> and
  \<open>haperflux\<close>. They are embedded below statement by statement.

  Conventions of the embedding.
  \<^item> A Python float is read as a real number; rounding and overflow are not modelled.
    The values a real cannot hold (NaN and the infinities) are constructors of
    \<open>pyfloat\<close>, so a division of zero by zero is a value of the model and not HOL's
    \<open>x / 0 = 0\<close>.
  \<^item> \<open>convertToJy\<close> and \<open>haperflux\<close> take their numeric arguments as floats
    (\<open>haperflux\<close> applies \<open>float()\<close> to each of them; in \<open>convertToJy\<close> a zero
    \<open>npix\<close> raises ZeroDivisionError). The radii of \<open>healpix_phot\<close> are Python
    numbers, ints or floats, since Python 2 divides two ints with a floor.
    \<open>None\<close> is \<open>None\<close> of an option type.
  \<^item> Every \<open>print\<close> appends a line to the output that is returned with the result;
    every raise and every \<open>exit()\<close> is an \<open>Inl\<close> result.
  \<^item> The file indents the unit dispatch of \<open>convertToJy\<close> (lines 149 to 178) and the
    flux computation of \<open>haperflux\<close> (lines 357 to 383) one level deeper than the
    statements before them, with no block opened. The model reads these statements
    as the continuation of the function body they stand in.
  \<^item> healpy (\<open>read_map\<close>, \<open>ang2vec\<close> with \<open>query_disc\<close>) and the two text-file readers
    are outside the module: they are parameters of the model.
\<close>

subsection \<open>Values, errors and output\<close>

datatype pyfloat = Fin real | PInf | NInf | NaN

datatype error =
    SystemExit
  | NameError string
  | TypeError
  | ZeroDivisionError
  | IndexError
  | ValueError
  | KeyError string
  | LibraryError

type_synonym 'a py = "string list \<times> (error + 'a)"

definition raise :: "error \<Rightarrow> 'a py" where
  "raise e = ([], Inl e)"

definition say :: "string list \<Rightarrow> 'a py \<Rightarrow> 'a py" where
  "say ls m = (ls @ fst m, snd m)"

fun isfinite :: "pyfloat \<Rightarrow> bool" where
  "isfinite (Fin _) = True"
| "isfinite _ = False"

text \<open>numpy's division of a finite float by a float64 (no exception, IEEE results).\<close>

fun fdiv :: "real \<Rightarrow> pyfloat \<Rightarrow> pyfloat" where
  "fdiv a (Fin b) =
     (if b = 0 then (if a = 0 then NaN else if 0 < a then PInf else NInf) else Fin (a / b))"
| "fdiv a PInf = Fin 0"
| "fdiv a NInf = Fin 0"
| "fdiv a NaN = NaN"

text \<open>The product of a float64 array cell with a finite Python float.\<close>

fun fmul :: "pyfloat \<Rightarrow> real \<Rightarrow> pyfloat" where
  "fmul (Fin a) b = Fin (a * b)"
| "fmul PInf b = (if b = 0 then NaN else if 0 < b then PInf else NInf)"
| "fmul NInf b = (if b = 0 then NaN else if 0 < b then NInf else PInf)"
| "fmul NaN b = NaN"

subsection \<open>planckcorr and convertToJy (lines 127 to 178)\<close>

definition planckcorr :: "real \<Rightarrow> pyfloat" where
  "planckcorr freq =
     (let h = 662606957 / 10 ^ 42;
          k = 13806488 / 10 ^ 30;
          T = 2725 / 1000;
          x = h * (freq * 10 ^ 9) / k / T
      in if x = 0 then NaN else Fin ((exp x - 1) ^ 2 / x ^ 2 / exp x))"

definition notice_both :: string where
  "notice_both = ''Only one of npix or pix_area should be specified! Proceeding with npix.''"

definition notice_invalid :: string where
  "notice_invalid = ''Invalid units specified! ''"

text \<open>
  Lines 140 to 145: the notice, then \<open>pix_area\<close> is derived from \<open>npix\<close> only when no
  \<open>pix_area\<close> was passed. \<open>4.*np.pi / npix\<close> raises TypeError on \<open>None\<close> and
  ZeroDivisionError on a zero \<open>npix\<close>.
\<close>

definition resolve_pix_area :: "real option \<Rightarrow> real option \<Rightarrow> error + real" where
  "resolve_pix_area npix pix_area =
     (case pix_area of
        Some a \<Rightarrow> Inr a
      | None \<Rightarrow>
          (case npix of
             None \<Rightarrow> Inl TypeError
           | Some n \<Rightarrow> if n = 0 then Inl ZeroDivisionError else Inr (4 * pi / n)))"

definition rj_factor :: "real \<Rightarrow> real \<Rightarrow> real" where
  "rj_factor thisfreq pix_area =
     2 * 1381 * (thisfreq * 10 ^ 9) ^ 2 / (2997 * 10 ^ 5) ^ 2 * pix_area"

definition convertToJy :: "string \<Rightarrow> real \<Rightarrow> real option \<Rightarrow> real option \<Rightarrow> pyfloat py" where
  "convertToJy units thisfreq npix pix_area =
     say (if pix_area \<noteq> None \<and> npix \<noteq> None then [notice_both] else [])
       (case resolve_pix_area npix pix_area of
          Inl e \<Rightarrow> raise e
        | Inr a \<Rightarrow>
            if units = ''K'' \<or> units = ''K_RJ'' \<or> units = ''KRJ'' then
              ([], Inr (Fin (rj_factor thisfreq a)))
            else if units = ''mK'' \<or> units = ''mK_RJ'' \<or> units = ''mKRJ'' then
              ([], Inr (Fin (rj_factor thisfreq a / 10 ^ 3)))
            else if units = ''uK'' \<or> units = ''uK_RJ'' \<or> units = ''uKRJ'' then
              ([], Inr (Fin (rj_factor thisfreq a / 10 ^ 6)))
            else if units = ''K_CMB'' \<or> units = ''KCMB'' then
              ([], Inr (fdiv (rj_factor thisfreq a) (planckcorr thisfreq)))
            else if units = ''mK_CMB'' \<or> units = ''mKCMB'' then
              ([], Inr (fdiv (rj_factor thisfreq a / 10 ^ 3) (planckcorr thisfreq)))
            else if units = ''uK_CMB'' \<or> units = ''uKCMB'' then
              ([], Inr (fdiv (rj_factor thisfreq a / 10 ^ 6) (planckcorr thisfreq)))
            else if units = ''MJy/sr'' \<or> units = ''MJY/SR'' \<or> units = ''MjySr'' then
              ([], Inr (Fin (a * 10 ^ 6)))
            else if units = ''Jy/pixel'' \<or> units = ''JY/PIXEL'' \<or> units = ''JY/PIX''
                    \<or> units = ''JyPix'' then
              ([], Inr (Fin 1))
            else if units = ''average'' \<or> units = ''avg'' \<or> units = ''Average''
                    \<or> units = ''AVG'' then
              raise (NameError ''ninnerpix'')
            else
              ([notice_invalid], Inr (Fin 1)))"

text \<open>The labels the dispatch of lines 149 to 173 compares with.\<close>

definition known_units :: "string list" where
  "known_units =
     [''K'', ''K_RJ'', ''KRJ'', ''mK'', ''mK_RJ'', ''mKRJ'', ''uK'', ''uK_RJ'', ''uKRJ'',
      ''K_CMB'', ''KCMB'', ''mK_CMB'', ''mKCMB'', ''uK_CMB'', ''uKCMB'',
      ''MJy/sr'', ''MJY/SR'', ''MjySr'',
      ''Jy/pixel'', ''JY/PIXEL'', ''JY/PIX'', ''JyPix'',
      ''average'', ''avg'', ''Average'', ''AVG'']"

subsection \<open>healpy, as far as the module uses it\<close>

text \<open>
  \<open>read_map\<close> stands for \<open>hp.read_map(file, h=True, nest=...)\<close>: the samples and the
  header. \<open>query_disc\<close> stands for \<open>hp.query_disc(nside, hp.ang2vec(theta, phi), radius,
  nest)\<close>; it is given \<open>(theta, phi)\<close>. Both may raise. A header holds the two cards
  the module reads; \<open>None\<close> is a missing card. A \<open>pynum\<close> is a Python number, an int
  or a float.
\<close>

datatype pynum = PInt int | PFloat real

record header =
  FREQ :: "pynum option"
  TUNIT1 :: "string option"

record healpy =
  read_map :: "string \<Rightarrow> bool \<Rightarrow> error + (real list \<times> header)"
  query_disc :: "nat \<Rightarrow> real \<times> real \<Rightarrow> real \<Rightarrow> bool \<Rightarrow> error + nat list"

definition UNSEEN :: real where
  "UNSEEN = - (16375 * 10 ^ 26)"

definition lift :: "error + 'a \<Rightarrow> 'a py" where
  "lift r = ([], r)"

definition then_py :: "'a py \<Rightarrow> ('a \<Rightarrow> 'b py) \<Rightarrow> 'b py" where
  "then_py m f = (case snd m of Inl e \<Rightarrow> (fst m, Inl e) | Inr a \<Rightarrow> say (fst m) (f a))"

subsection \<open>numpy and astropy, as far as the module uses them\<close>

text \<open>\<open>hmap[pix]\<close>: indexing with an array of pixel numbers; IndexError out of range.\<close>

definition take_pixels :: "real list \<Rightarrow> nat list \<Rightarrow> error + real list" where
  "take_pixels hmap pix =
     (if list_all (\<lambda>p. p < length hmap) pix then Inr (map (\<lambda>p. hmap ! p) pix)
      else Inl IndexError)"

text \<open>\<open>np.where(vals == c)\<close>: the positions that hold \<open>c\<close>.\<close>

definition np_where_eq :: "real list \<Rightarrow> real \<Rightarrow> nat list" where
  "np_where_eq vals c = filter (\<lambda>i. vals ! i = c) [0..<length vals]"

text \<open>
  \<open>np.delete(arr, obj)\<close>: the array without the elements at the POSITIONS listed in
  \<open>obj\<close>. A position past the end is ignored (with a DeprecationWarning) by the numpy
  releases that run Python 2, the language of this module; later releases raise
  IndexError there. The inputs evaluated below keep every position in range, where
  all releases agree.
\<close>

definition np_delete :: "'a list \<Rightarrow> nat list \<Rightarrow> 'a list" where
  "np_delete arr obj = map (\<lambda>i. arr ! i) (filter (\<lambda>i. i \<notin> set obj) [0..<length arr])"

text \<open>\<open>np.median\<close>: NaN on an empty array, else the middle of the sorted values.\<close>

definition median :: "real list \<Rightarrow> pyfloat" where
  "median vals =
     (let s = sort vals; n = length s
      in if n = 0 then NaN
         else if odd n then Fin (s ! (n div 2))
         else Fin ((s ! (n div 2 - 1) + s ! (n div 2)) / 2))"

text \<open>\<open>astropy.stats.mad_std\<close>: the median absolute deviation times 1.482602218505602.\<close>

definition mad_std :: "real list \<Rightarrow> pyfloat" where
  "mad_std vals =
     (case median vals of
        Fin m \<Rightarrow> fmul (median (map (\<lambda>v. \<bar>v - m\<bar>) vals)) (1482602218505602 / 10 ^ 15)
      | _ \<Rightarrow> NaN)"

fun fsub :: "real \<Rightarrow> pyfloat \<Rightarrow> pyfloat" where
  "fsub a (Fin b) = Fin (a - b)"
| "fsub a PInf = NInf"
| "fsub a NInf = PInf"
| "fsub a NaN = NaN"

subsection \<open>haperflux (lines 247 to 389)\<close>

datatype inmap = Filename string | Array "real list"

text \<open>
  The arguments of a call. \<open>fd\<close>, \<open>fd_bg\<close>, \<open>column\<close>, \<open>dopol\<close> and \<open>centroid\<close> are never
  read by the body and are left out. \<open>res_arcmin\<close> and \<open>aper_inner_radius\<close> may be
  \<open>None\<close>: \<open>healpix_phot\<close> passes its own \<open>radius\<close> for both.
\<close>

record aperture_call =
  inmap :: inmap
  freq :: real
  lon :: real
  lat :: real
  res_arcmin :: "real option"
  aper_inner_radius :: "real option"
  aper_outer_radius1 :: real
  aper_outer_radius2 :: real
  units :: string
  fd_err :: pyfloat
  nested :: bool
  noise_model :: int
  arcmin :: bool

definition usage :: "string list" where
  "usage =
     ['''', ''SYNTAX:-'', '''',
      ''haperflux(inmap, freq, res_arcmin, lon, lat, aper_inner_radius, aper_outer_radius1, aper_outer_radius2, units, fd, fd_err, fd_bg,column, noise_model, /dopol, /nested)'',
      '''']"

definition reading_lines :: "string list" where
  "reading_lines = [''Filename given as input...'', ''Reading HEALPix fits file into a numpy array'']"

definition not_standard_lines :: "string list" where
  "not_standard_lines = ['''', ''Not a standard Healpix map...'', '''']"

definition no_good_lines :: "string list" where
  "no_good_lines = ['''', ''***No good pixels inside aperture!***'', '''']"

text \<open>
  Lines 278 to 287. \<open>np.size\<close> of a file name is 1. An array of one sample is handed to
  \<open>hp.read_map\<close> as if it were a file name, which fails inside the library; an empty
  array leaves \<open>hmap\<close> unbound, and line 294 raises on it.
\<close>

definition load_map :: "healpy \<Rightarrow> inmap \<Rightarrow> bool \<Rightarrow> real list py" where
  "load_map hp im nest =
     (case im of
        Filename f \<Rightarrow>
          say reading_lines
            (case read_map hp f nest of
               Inl e \<Rightarrow> raise e
             | Inr (hmap, hhead) \<Rightarrow> ([], Inr hmap))
      | Array xs \<Rightarrow>
          if length xs = 1 then say reading_lines (raise LibraryError)
          else if 1 < length xs then ([], Inr xs)
          else raise (NameError ''hmap''))"

text \<open>
  Lines 294 to 299. \<open>len(hmap)/12\<close> is Python 2's integer division. The float
  \<open>np.sqrt\<close> of that integer passes \<open>round(nside,1) == nside\<close> and \<open>nside % 2 == 0\<close>
  exactly when the integer is the square of an even number; \<open>exact_sqrt\<close> finds the
  root.
\<close>

definition exact_sqrt :: "nat \<Rightarrow> nat option" where
  "exact_sqrt m = List.find (\<lambda>r. r * r = m) [0..<Suc m]"

record pixsel =
  innerpix :: "nat list"
  outerpix1 :: "nat list"
  outerpix2 :: "nat list"
  bgpix :: "nat list"

text \<open>Lines 311 to 353: the three discs, the removal of UNSEEN pixels, the annulus.\<close>

definition haperflux_pixels ::
  "healpy \<Rightarrow> real list \<Rightarrow> nat \<Rightarrow> real \<times> real \<Rightarrow> real \<Rightarrow> real \<Rightarrow> real \<Rightarrow> bool \<Rightarrow> pixsel py" where
  "haperflux_pixels hp hmap nside ang r0 r1 r2 nest =
     then_py (lift (query_disc hp nside ang r0 nest)) (\<lambda>innerpix0.
     then_py (lift (query_disc hp nside ang r1 nest)) (\<lambda>outerpix10.
     then_py (lift (query_disc hp nside ang r2 nest)) (\<lambda>outerpix20.
     then_py (lift (take_pixels hmap innerpix0)) (\<lambda>v0.
     let innerpix_masked = np_delete innerpix0 (np_where_eq v0 UNSEEN);
         ninnerpix = length innerpix_masked
     in
     then_py (lift (take_pixels hmap outerpix10)) (\<lambda>v1.
     let outerpix1_masked = np_delete outerpix10 (np_where_eq v1 UNSEEN);
         nouterpix1 = length outerpix1_masked
     in
     then_py (lift (take_pixels hmap outerpix20)) (\<lambda>v2.
     let outerpix2_masked = np_delete outerpix20 (np_where_eq v2 UNSEEN);
         nouterpix2 = length outerpix2_masked
     in
     if ninnerpix = 0 \<or> nouterpix1 = 0 \<or> nouterpix2 = 0 then
       (no_good_lines, Inl SystemExit)
     else
       ([], Inr \<lparr>innerpix = innerpix_masked,
                 outerpix1 = outerpix1_masked,
                 outerpix2 = outerpix2_masked,
                 bgpix = np_delete outerpix2_masked outerpix1_masked\<rparr>)))))))"

text \<open>
  Lines 250 to 355. The name called on line 355, \<open>covnertToJy\<close>, is bound nowhere in the
  module (the function of line 135 is \<open>convertToJy\<close>), so the call raises NameError.
\<close>

definition haperflux ::
  "healpy \<Rightarrow> string list \<Rightarrow> aperture_call \<Rightarrow> (pyfloat \<times> pyfloat \<times> pyfloat) py" where
  "haperflux hp argv c =
     (if 8 < length argv then (usage, Inl SystemExit)
      else
        (case aper_inner_radius c of
           None \<Rightarrow> raise TypeError
         | Some air \<Rightarrow>
             let thisfreq = freq c;
                 r0 = (if arcmin c then air / 60 * pi / 180 else air);
                 r1 = (if arcmin c then aper_outer_radius1 c / 60 * pi / 180
                       else aper_outer_radius1 c);
                 r2 = (if arcmin c then aper_outer_radius2 c / 60 * pi / 180
                       else aper_outer_radius2 c)
             in
             then_py (load_map hp (inmap c) (nested c)) (\<lambda>hmap.
               case exact_sqrt (length hmap div 12) of
                 None \<Rightarrow> (not_standard_lines, Inl SystemExit)
               | Some nside \<Rightarrow>
                   if odd nside then (not_standard_lines, Inl SystemExit)
                   else
                     let npix = 12 * nside ^ 2;
                         phi = lon c * pi / 180;
                         theta = pi / 2 - lat c * pi / 180
                     in
                     then_py (haperflux_pixels hp hmap nside (theta, phi) r0 r1 r2 (nested c))
                       (\<lambda>sel. raise (NameError ''covnertToJy'')))))"

text \<open>
  Lines 357 to 389, the statements behind the failing call, for a conversion factor
  \<open>factor\<close>: what they compute once one is at hand. \<open>pix_area\<close> (lines 373 and 374)
  is a local name of \<open>convertToJy\<close> and is bound neither in \<open>haperflux\<close> nor in the
  module; \<open>nbgpix\<close> is a Python int, so dividing by a zero \<open>nbgpix\<close> raises.
\<close>

definition haperflux_tail ::
  "real list \<Rightarrow> pixsel \<Rightarrow> real \<Rightarrow> aperture_call \<Rightarrow> (pyfloat \<times> pyfloat \<times> pyfloat) py" where
  "haperflux_tail hmap sel factor c =
     (let ninnerpix = length (innerpix sel);
          nbgpix = length (bgpix sel);
          fd_jy_inner = sum_list (map (\<lambda>p. hmap ! p * factor) (innerpix sel));
          bgvals = map (\<lambda>p. hmap ! p) (bgpix sel);
          fd_jy_outer = fmul (median bgvals) factor;
          fd_bg = fd_jy_outer;
          fd_bg_scaled = fmul fd_bg (real ninnerpix);
          fd = fsub fd_jy_inner fd_bg_scaled
      in if noise_model c = 0 then raise (NameError ''pix_area'')
         else if noise_model c = 1 then
           (if nbgpix = 0 then raise ZeroDivisionError
            else
              let k = pi / 2
              in ([], Inr (fd,
                           fmul (mad_std bgvals)
                             (factor * sqrt (real ninnerpix + k * (real ninnerpix) ^ 2 / real nbgpix)),
                           fd_bg_scaled)))
         else ([], Inr (fd, fd_err c, fd_bg_scaled)))"

subsection \<open>healpix_phot (lines 180 to 243)\<close>

text \<open>
  \<open>inputlist\<close> and \<open>maplist\<close> name text files read by \<open>np.genfromtxt\<close>; the model takes
  the rows of the files: the targets and the map file names \<open>fn\<close>. The lists \<open>freqval\<close>
  and \<open>band_names\<close> and the argument \<open>decimal\<close> are never read and are left out.
\<close>

record target =
  sname :: string
  glon :: real
  glat :: real

definition freqlist :: "string list" where
  "freqlist =
     [''30'', ''44'', ''70'', ''100'', ''143'', ''217'', ''353'', ''545'', ''857'', ''1874'',
      ''2141'', ''2998'', ''3331'', ''4612'', ''4997'', ''11992'', ''16655'', ''24983'',
      ''33310'']"

definition fwhmlist :: "pynum list" where
  "fwhmlist =
     [PFloat (331587 / 10000), PFloat (280852 / 10000), PFloat (130812 / 10000),
      PFloat (988 / 100), PFloat (718 / 100), PFloat (487 / 100), PFloat (465 / 100),
      PFloat (472 / 100), PFloat (439 / 100), PFloat (86 / 100), PFloat (86 / 100),
      PFloat (43 / 10), PFloat (86 / 100), PFloat (86 / 100), PInt 4, PFloat (38 / 10),
      PFloat (86 / 100), PFloat (38 / 10), PFloat (86 / 100)]"

text \<open>\<open>float(x)\<close> of a Python number.\<close>

fun py_float :: "pynum \<Rightarrow> real" where
  "py_float (PInt i) = of_int i"
| "py_float (PFloat x) = x"

text \<open>
  Python 2's \<open>a / b\<close>: the floor of the quotient when both are ints, the quotient
  when one is a float; ZeroDivisionError on a zero divisor.
\<close>

fun py_div :: "pynum \<Rightarrow> pynum \<Rightarrow> error + pynum" where
  "py_div (PInt a) (PInt b) = (if b = 0 then Inl ZeroDivisionError else Inr (PInt (a div b)))"
| "py_div a b =
     (if py_float b = 0 then Inl ZeroDivisionError else Inr (PFloat (py_float a / py_float b)))"

text \<open>
  Lines 188 to 191. \<open>rinner/radius\<close> raises TypeError when \<open>radius\<close> is \<open>None\<close>. The
  bracket is a float; \<open>x ** (-1)\<close> of a zero float raises ZeroDivisionError.
\<close>

definition apcor_of :: "pynum option \<Rightarrow> pynum \<Rightarrow> pynum \<Rightarrow> error + real" where
  "apcor_of radius rinner router =
     (case radius of
        None \<Rightarrow> Inl TypeError
      | Some r \<Rightarrow>
          (case py_div rinner r of
             Inl e \<Rightarrow> Inl e
           | Inr k1 \<Rightarrow>
               (case py_div router r of
                  Inl e \<Rightarrow> Inl e
                | Inr k2 \<Rightarrow>
                    let k0 = 1;
                        base = (1 - (1 / 2) powr (4 * k0 ^ 2))
                               - ((1 / 2) powr (4 * (py_float k1) ^ 2)
                                  - (1 / 2) powr (4 * (py_float k2) ^ 2))
                    in if base = 0 then Inl ZeroDivisionError else Inr (1 / base))))"

text \<open>\<open>str\<close> of an integer.\<close>

fun str_nat :: "nat \<Rightarrow> string" where
  "str_nat n =
     (if n < 10 then [''0123456789'' ! n]
      else str_nat (n div 10) @ [''0123456789'' ! (n mod 10)])"

definition str_int :: "int \<Rightarrow> string" where
  "str_int i = (if i < 0 then CHR ''-'' # str_nat (nat (- i)) else str_nat (nat i))"

fun index_of :: "'a \<Rightarrow> 'a list \<Rightarrow> nat option" where
  "index_of x [] = None"
| "index_of x (y # ys) = (if x = y then Some 0 else map_option Suc (index_of x ys))"

text \<open>
  Line 216, \<open>freqlist.index(str(freq))\<close>. The \<open>str\<close> of a float carries a point, an
  exponent, or is \<open>inf\<close> or \<open>nan\<close>: it is no entry of \<open>freqlist\<close>, and \<open>index\<close> raises
  ValueError.
\<close>

definition freq_index :: "pynum \<Rightarrow> error + nat" where
  "freq_index fq =
     (case fq of
        PInt i \<Rightarrow> (case index_of (str_int i) freqlist of None \<Rightarrow> Inl ValueError | Some idx \<Rightarrow> Inr idx)
      | PFloat x \<Rightarrow> Inl ValueError)"

definition py_int :: "pynum \<Rightarrow> int" where
  "py_int fq = (case fq of PInt i \<Rightarrow> i | PFloat x \<Rightarrow> (if 0 \<le> x then \<lfloor>x\<rfloor> else \<lceil>x\<rceil>))"

record mapinfo =
  xtmp_data :: "real list"
  map_units :: string
  currfreq :: int
  radval :: pynum

text \<open>Lines 212 to 222: what the loop over the maps reads for one map.\<close>

definition map_meta :: "healpy \<Rightarrow> pynum option \<Rightarrow> string \<Rightarrow> error + mapinfo" where
  "map_meta hp radius f =
     (case read_map hp f False of
        Inl e \<Rightarrow> Inl e
      | Inr (data, head) \<Rightarrow>
          (case FREQ head of
             None \<Rightarrow> Inl (KeyError ''FREQ'')
           | Some fq \<Rightarrow>
               (case TUNIT1 head of
                  None \<Rightarrow> Inl (KeyError ''TUNIT1'')
                | Some u \<Rightarrow>
                    (case freq_index fq of
                       Inl e \<Rightarrow> Inl e
                     | Inr idx \<Rightarrow>
                         Inr \<lparr>xtmp_data = data, map_units = u, currfreq = py_int fq,
                              radval = (case radius of None \<Rightarrow> fwhmlist ! idx | Some r \<Rightarrow> r)\<rparr>))))"

text \<open>
  Lines 231 to 233: the call made for one target on one map. It passes \<open>radius\<close>, not
  \<open>radval\<close>, as resolution and as inner radius; the other arguments of \<open>haperflux\<close>
  keep their defaults. \<open>haperflux\<close> reads each number through \<open>float()\<close>, which the
  call record holds.
\<close>

definition cell_call ::
  "mapinfo \<Rightarrow> target \<Rightarrow> pynum option \<Rightarrow> pynum \<Rightarrow> pynum \<Rightarrow> aperture_call" where
  "cell_call mi t radius rinner router =
     \<lparr>inmap = Array (xtmp_data mi), freq = of_int (currfreq mi), lon = glon t, lat = glat t,
      res_arcmin = map_option py_float radius, aper_inner_radius = map_option py_float radius,
      aper_outer_radius1 = py_float rinner, aper_outer_radius2 = py_float router,
      units = map_units mi, fd_err = Fin 0, nested = False, noise_model = 0, arcmin = True\<rparr>"

type_synonym table = "pyfloat list list"

definition zeros :: "nat \<Rightarrow> nat \<Rightarrow> table" where
  "zeros ns nmaps = replicate ns (replicate nmaps (Fin 0))"

text \<open>\<open>T[i,j] = v\<close>; the loops keep \<open>i\<close> and \<open>j\<close> inside the table.\<close>

definition put :: "table \<Rightarrow> nat \<Rightarrow> nat \<Rightarrow> pyfloat \<Rightarrow> table" where
  "put T i j v = T[i := (T ! i)[j := v]]"

text \<open>Lines 230 and 235 to 241: the three stores, then the test of the stored error.\<close>

definition store_cell ::
  "pynum option \<Rightarrow> real \<Rightarrow> nat \<Rightarrow> nat \<Rightarrow> pyfloat \<times> pyfloat \<times> pyfloat
     \<Rightarrow> table \<times> table \<times> table \<Rightarrow> table \<times> table \<times> table" where
  "store_cell radius apcor ct ct2 res tabs =
     (case res of (fd, err, bg) \<Rightarrow>
      case tabs of (fd_all, fd_err_all, fd_bg_all) \<Rightarrow>
        let fd_all1 = put fd_all ct ct2 fd;
            fd_err_all1 = put fd_err_all ct ct2 err;
            fd_bg_all1 = put fd_bg_all ct ct2 bg
        in if \<not> isfinite (fd_err_all1 ! ct ! ct2) then
             (put fd_all1 ct ct2 (Fin (- 1)), put fd_err_all1 ct ct2 (Fin (- 1)), fd_bg_all1)
           else if radius = None then
             (put fd_all1 ct ct2 (fmul (fd_all1 ! ct ! ct2) apcor),
              put fd_err_all1 ct ct2 (fmul (fd_err_all1 ! ct ! ct2) apcor),
              fd_bg_all1)
           else (fd_all1, fd_err_all1, fd_bg_all1))"

text \<open>
  Lines 225 to 241, the loop over the targets for the map in column \<open>ct2\<close>, from row
  \<open>ct\<close> on. \<open>phot\<close> is the photometry function called on line 231. A raise or an
  exit inside it is caught nowhere and ends the run.
\<close>

fun targets_loop ::
  "(aperture_call \<Rightarrow> (pyfloat \<times> pyfloat \<times> pyfloat) py) \<Rightarrow> mapinfo \<Rightarrow> pynum option \<Rightarrow> real
     \<Rightarrow> pynum \<Rightarrow> pynum \<Rightarrow> nat \<Rightarrow> target list \<Rightarrow> nat \<Rightarrow> table \<times> table \<times> table
     \<Rightarrow> (table \<times> table \<times> table) py" where
  "targets_loop phot mi radius apcor rinner router ct2 [] ct tabs = ([], Inr tabs)"
| "targets_loop phot mi radius apcor rinner router ct2 (t # ts) ct tabs =
     then_py (phot (cell_call mi t radius rinner router)) (\<lambda>res.
       targets_loop phot mi radius apcor rinner router ct2 ts (Suc ct)
         (store_cell radius apcor ct ct2 res tabs))"

text \<open>Lines 211 to 241, the loop over the maps, from column \<open>ct2\<close> on.\<close>

fun maps_loop ::
  "(aperture_call \<Rightarrow> (pyfloat \<times> pyfloat \<times> pyfloat) py) \<Rightarrow> healpy \<Rightarrow> pynum option \<Rightarrow> real
     \<Rightarrow> pynum \<Rightarrow> pynum \<Rightarrow> target list \<Rightarrow> string list \<Rightarrow> nat \<Rightarrow> table \<times> table \<times> table
     \<Rightarrow> (table \<times> table \<times> table) py" where
  "maps_loop phot hp radius apcor rinner router targets [] ct2 tabs = ([], Inr tabs)"
| "maps_loop phot hp radius apcor rinner router targets (f # fs) ct2 tabs =
     then_py (lift (map_meta hp radius f)) (\<lambda>mi.
     then_py (targets_loop phot mi radius apcor rinner router ct2 targets 0 tabs) (\<lambda>tabs1.
       maps_loop phot hp radius apcor rinner router targets fs (Suc ct2) tabs1))"

text \<open>
  Lines 198 and 204, \<open>len\<close> of what \<open>np.genfromtxt\<close> made of the rows of a file. A file
  of one row gives an array of no dimension, and \<open>len\<close> raises TypeError on it; an
  empty file gives an empty array.
\<close>

definition genfromtxt_len :: "'a list \<Rightarrow> error + nat" where
  "genfromtxt_len rows = (if length rows = 1 then Inl TypeError else Inr (length rows))"

text \<open>
  The whole of \<open>healpix_phot\<close>, for any photometry function. \<open>targets\<close> is bound only
  under \<open>galactic == True\<close>; line 198 raises otherwise.
\<close>

definition healpix_phot_with ::
  "(aperture_call \<Rightarrow> (pyfloat \<times> pyfloat \<times> pyfloat) py) \<Rightarrow> healpy \<Rightarrow> target list \<Rightarrow> string list
     \<Rightarrow> pynum option \<Rightarrow> pynum \<Rightarrow> pynum \<Rightarrow> bool \<Rightarrow> (table \<times> table \<times> table) py" where
  "healpix_phot_with phot hp targets fn radius rinner router galactic =
     then_py (lift (apcor_of radius rinner router)) (\<lambda>apcor.
       if \<not> galactic then raise (NameError ''targets'')
       else
         then_py (lift (genfromtxt_len targets)) (\<lambda>ns.
         then_py (lift (genfromtxt_len fn)) (\<lambda>nmaps.
           let fd_all = zeros ns nmaps;
               fd_err_all = zeros ns nmaps;
               fd_bg_all = zeros ns nmaps
           in maps_loop phot hp radius apcor rinner router targets fn 0
                (fd_all, fd_err_all, fd_bg_all))))"

text \<open>\<open>healpix_phot\<close> as the module has it: the function called on line 231 is \<open>haperflux\<close>.\<close>

definition healpix_phot ::
  "healpy \<Rightarrow> string list \<Rightarrow> target list \<Rightarrow> string list \<Rightarrow> pynum option \<Rightarrow> pynum \<Rightarrow> pynum
     \<Rightarrow> bool \<Rightarrow> (table \<times> table \<times> table) py" where
  "healpix_phot hp argv = healpix_phot_with (haperflux hp argv) hp"

subsection \<open>A small sky for evaluation\<close>

text \<open>
  A RING map of nside 2 (48 samples). Its first ring holds the pixels 0 to 3, its
  second the pixels 4 to 11. About the centre of pixel 1 (longitude 135, latitude
  66.44 degrees) a disc of 600 arcmin holds the centre of pixel 1 only, and a disc of
  1800 arcmin those of the pixels 1, 6 and 7; \<open>cap_healpy\<close> answers the disc queries
  so, in ascending order as healpy does. It serves two files, \<open>blank.fits\<close> (every
  sample UNSEEN) and \<open>flat.fits\<close> (every sample 1.0), both at 100 GHz in Jy/pixel.
\<close>

definition flat_map :: "real list" where
  "flat_map = replicate 48 1"

definition blank_map :: "real list" where
  "blank_map = replicate 48 UNSEEN"

definition cap_header :: header where
  "cap_header = \<lparr>FREQ = Some (PInt 100), TUNIT1 = Some ''Jy/pixel''\<rparr>"

definition cap_healpy :: healpy where
  "cap_healpy =
     \<lparr>read_map = (\<lambda>f nest. if f = ''blank.fits'' then Inr (blank_map, cap_header)
                           else if f = ''flat.fits'' then Inr (flat_map, cap_header)
                           else Inl LibraryError),
      query_disc = (\<lambda>nside ang r nest. Inr (if r < 3 / 10 then [1] else [1, 6, 7]))\<rparr>"

definition cap_target :: target where
  "cap_target = \<lparr>sname = ''cap'', glon = 135, glat = 6644 / 100\<rparr>"

text \<open>The call \<open>haperflux(flat, 100, 135, 66.44, 600, 600, 600, 1800, 'Jy/pixel')\<close>.\<close>

definition cap_call :: aperture_call where
  "cap_call =
     \<lparr>inmap = Array flat_map, freq = 100, lon = 135, lat = 6644 / 100,
      res_arcmin = Some 600, aper_inner_radius = Some 600,
      aper_outer_radius1 = 600, aper_outer_radius2 = 1800,
      units = ''Jy/pixel'', fd_err = Fin 0, nested = False, noise_model = 0, arcmin = True\<rparr>"

definition far_target :: target where
  "far_target = \<lparr>sname = ''far'', glon = 10, glat = 0\<rparr>"

text \<open>
  A photometry function that returns at once: \<open>(NaN, NaN, 5.0)\<close> at longitude 135 and
  \<open>(2.0, 1.0, 3.0)\<close> elsewhere. It stands in the place of \<open>haperflux\<close> where the loop of
  \<open>healpix_phot\<close> is evaluated on results that come back.
\<close>

definition nan_phot :: "aperture_call \<Rightarrow> (pyfloat \<times> pyfloat \<times> pyfloat) py" where
  "nan_phot c = ([], Inr (if lon c = 135 then (NaN, NaN, Fin 5) else (Fin 2, Fin 1, Fin 3)))"

subsection \<open>Reading the result tables\<close>

text \<open>A table is dense of shape \<open>ns\<close> by \<open>nmaps\<close>: \<open>ns\<close> rows, each of \<open>nmaps\<close> cells.\<close>

definition shape :: "table \<Rightarrow> nat \<Rightarrow> nat \<Rightarrow> bool" where
  "shape T ns nmaps = (length T = ns \<and> (\<forall>row \<in> set T. length row = nmaps))"

definition shape3 :: "table \<times> table \<times> table \<Rightarrow> nat \<Rightarrow> nat \<Rightarrow> bool" where
  "shape3 tabs ns nmaps =
     (case tabs of (F, E, B) \<Rightarrow> shape F ns nmaps \<and> shape E ns nmaps \<and> shape B ns nmaps)"

text \<open>The cell \<open>(i, j)\<close> of the three tables: flux, error, background.\<close>

definition cells :: "table \<times> table \<times> table \<Rightarrow> nat \<Rightarrow> nat \<Rightarrow> pyfloat \<times> pyfloat \<times> pyfloat" where
  "cells tabs i j = (case tabs of (F, E, B) \<Rightarrow> (F ! i ! j, E ! i ! j, B ! i ! j))"

text \<open>What lines 230 to 241 leave in a cell for a returned \<open>(fd, err, bg)\<close>.\<close>

definition cell_result ::
  "pynum option \<Rightarrow> real \<Rightarrow> pyfloat \<times> pyfloat \<times> pyfloat \<Rightarrow> pyfloat \<times> pyfloat \<times> pyfloat" where
  "cell_result radius apcor res =
     (case res of (fd, err, bg) \<Rightarrow>
        if \<not> isfinite err then (Fin (- 1), Fin (- 1), bg)
        else if radius = None then (fmul fd apcor, fmul err apcor, bg)
        else (fd, err, bg))"

section \<open>Properties of the unit conversion\<close>

text \<open>
  Claim C3. The claim: for a unit label outside the table, \<open>convertToJy\<close> reports an
  error and returns no usable factor. The code prints its notice and returns the
  factor it started with, 1.0, which is also the factor of \<open>Jy/pixel\<close>: at the label
  \<open>furlong\<close>, 100 GHz and 192 pixels the result is the number 1.
\<close>

theorem convertToJy_unknown_label_counterexample:
  "convertToJy ''furlong'' 100 (Some 192) None = ([''Invalid units specified! ''], Inr (Fin 1))"
  by (simp add: convertToJy_def resolve_pix_area_def say_def notice_invalid_def)

text \<open>
  Claim C3, as the code has it: for every label outside the table, and whenever the
  solid angle can be formed (a \<open>pix_area\<close> is passed, or a nonzero \<open>npix\<close>),
  \<open>convertToJy\<close> raises nothing, prints \<open>Invalid units specified!\<close> as its last line
  and returns the factor 1.0.
\<close>

theorem convertToJy_unknown_label_factor_one:
  assumes "unit_label \<notin> set known_units"
    and "resolve_pix_area npix pix_area = Inr a"
  shows "convertToJy unit_label thisfreq npix pix_area =
           ((if pix_area \<noteq> None \<and> npix \<noteq> None then [notice_both] else []) @ [notice_invalid],
            Inr (Fin 1))"
  using assms by (simp add: convertToJy_def known_units_def say_def)

theorem convertToJy_unknown_label_factor_one_witness:
  "''furlong'' \<notin> set known_units
   \<and> resolve_pix_area (Some 192) None = Inr (4 * pi / 192)
   \<and> convertToJy ''furlong'' 100 (Some 192) None = ([notice_invalid], Inr (Fin 1))"
proof -
  have u: "''furlong'' \<notin> set known_units" by (simp add: known_units_def)
  have r: "resolve_pix_area (Some 192) None = Inr (4 * pi / 192)"
    by (simp add: resolve_pix_area_def)
  from convertToJy_unknown_label_factor_one [OF u r, of 100] u r show ?thesis by simp
qed

text \<open>
  Claim C7. The claim: when both \<open>npix\<close> and \<open>pix_area\<close> are passed, the factor is
  computed from \<open>4 pi / npix\<close> and the passed solid angle is ignored. The code prints
  \<open>Proceeding with npix.\<close> and then derives the solid angle from \<open>npix\<close> only under
  \<open>pix_area == None\<close>, so the passed \<open>pix_area\<close> is the one used: for \<open>MJy/sr\<close>, 12
  pixels and a passed solid angle of 2, the factor is \<open>2e6\<close> and not \<open>4 pi / 12 * 1e6\<close>.
\<close>

theorem convertToJy_both_given_uses_pix_area:
  "convertToJy ''MJy/sr'' 100 (Some 12) (Some 2) =
     ([''Only one of npix or pix_area should be specified! Proceeding with npix.''],
      Inr (Fin (2 * 10 ^ 6)))
   \<and> (2 * 10 ^ 6 :: real) \<noteq> 4 * pi / 12 * 10 ^ 6"
proof -
  have "(2 * 10 ^ 6 :: real) \<noteq> 4 * pi / 12 * 10 ^ 6" using pi_less_4 by simp
  then show ?thesis
    by (simp add: convertToJy_def resolve_pix_area_def say_def notice_both_def)
qed

text \<open>
  Claim C9. The claim: the factor for \<open>mK_RJ\<close> is 1000 times the factor for \<open>K_RJ\<close>. The
  code divides by \<open>1.0e3\<close> for \<open>mK_RJ\<close>: at 1 GHz and a solid angle of 1 the \<open>mK_RJ\<close>
  factor is a thousandth of the \<open>K_RJ\<close> factor, and not its thousandfold.
\<close>

theorem mK_RJ_thousand_times_K_RJ_counterexample:
  "convertToJy ''K_RJ'' 1 None (Some 1) = ([], Inr (Fin (2762 * 10 ^ 18 / (2997 * 10 ^ 5) ^ 2)))
   \<and> convertToJy ''mK_RJ'' 1 None (Some 1)
       = ([], Inr (Fin (2762 * 10 ^ 18 / (2997 * 10 ^ 5) ^ 2 / 1000)))
   \<and> (2762 * 10 ^ 18 / (2997 * 10 ^ 5) ^ 2 / 1000 :: real)
       \<noteq> 1000 * (2762 * 10 ^ 18 / (2997 * 10 ^ 5) ^ 2)"
  by (simp add: convertToJy_def resolve_pix_area_def say_def rj_factor_def)

text \<open>
  Claim C9, as the code has it: whenever \<open>convertToJy\<close> returns a factor for \<open>mK_RJ\<close>,
  that factor is a finite number \<open>b\<close>, and for \<open>K_RJ\<close> with the same frequency and solid
  angle it returns \<open>1000 * b\<close> with the same output. The numbers are read as reals.
\<close>

theorem K_RJ_thousand_times_mK_RJ:
  assumes "convertToJy ''mK_RJ'' thisfreq npix pix_area = (out, Inr m)"
  shows "\<exists>b. m = Fin b \<and> convertToJy ''K_RJ'' thisfreq npix pix_area = (out, Inr (Fin (1000 * b)))"
proof (cases "resolve_pix_area npix pix_area")
  case (Inl e)
  with assms show ?thesis by (simp add: convertToJy_def say_def raise_def)
next
  case (Inr a)
  with assms show ?thesis by (auto simp: convertToJy_def say_def)
qed

theorem K_RJ_thousand_times_mK_RJ_witness:
  "convertToJy ''mK_RJ'' 1 None (Some 1) = ([], Inr (Fin (2762 * 10 ^ 18 / (2997 * 10 ^ 5) ^ 2 / 1000)))
   \<and> (\<exists>b. Fin (2762 * 10 ^ 18 / (2997 * 10 ^ 5) ^ 2 / 1000) = Fin b
         \<and> convertToJy ''K_RJ'' 1 None (Some 1) = ([], Inr (Fin (1000 * b))))"
proof -
  have m: "convertToJy ''mK_RJ'' 1 None (Some 1)
             = ([], Inr (Fin (2762 * 10 ^ 18 / (2997 * 10 ^ 5) ^ 2 / 1000)))"
    by (simp add: convertToJy_def resolve_pix_area_def say_def rj_factor_def)
  from K_RJ_thousand_times_mK_RJ [OF m] m show ?thesis by blast
qed

section \<open>Properties of haperflux\<close>

subsection \<open>The small sky, evaluated\<close>

lemma exact_sqrt_4: "exact_sqrt 4 = Some 2"
  by code_simp

lemma length_flat_map: "length flat_map = 48"
  by (simp add: flat_map_def)

lemma length_blank_map: "length blank_map = 48"
  by (simp add: blank_map_def)

lemma cap_pixels_flat:
  assumes "r0 < 3 / 10" "r1 < 3 / 10" "\<not> r2 < 3 / 10"
  shows "haperflux_pixels cap_healpy flat_map nside ang r0 r1 r2 nest
   = ([], Inr \<lparr>innerpix = [1], outerpix1 = [1], outerpix2 = [1, 6, 7], bgpix = [1, 7]\<rparr>)"
  using assms
  by (simp add: haperflux_pixels_def cap_healpy_def flat_map_def then_py_def lift_def say_def
      take_pixels_def np_where_eq_def np_delete_def UNSEEN_def Let_def)

lemma cap_pixels_blank:
  assumes "r0 < 3 / 10" "r1 < 3 / 10" "\<not> r2 < 3 / 10"
  shows "haperflux_pixels cap_healpy blank_map nside ang r0 r1 r2 nest
   = (no_good_lines, Inl SystemExit)"
  using assms
  by (simp add: haperflux_pixels_def cap_healpy_def blank_map_def then_py_def lift_def say_def
      take_pixels_def np_where_eq_def np_delete_def Let_def)

text \<open>600 arcmin are \<open>pi / 18\<close> radians, 1800 arcmin are \<open>pi / 6\<close>.\<close>

lemma cap_radii: "pi / 18 < 3 / 10" "\<not> pi / 6 < 3 / 10"
  using pi_less_4 pi_ge_two by simp_all

lemmas cap_flat_arcmin = cap_pixels_flat [OF cap_radii(1) cap_radii(1) cap_radii(2)]

lemmas cap_blank_arcmin = cap_pixels_blank [OF cap_radii(1) cap_radii(1) cap_radii(2)]

lemma haperflux_flat:
  "haperflux cap_healpy [''prog''] cap_call = ([], Inl (NameError ''covnertToJy''))"
  by (simp add: haperflux_def cap_call_def load_map_def length_flat_map then_py_def say_def
      raise_def exact_sqrt_4 cap_flat_arcmin Let_def)

lemma haperflux_blank:
  "haperflux cap_healpy [''prog''] (cap_call\<lparr>inmap := Array blank_map\<rparr>)
     = (no_good_lines, Inl SystemExit)"
  by (simp add: haperflux_def cap_call_def load_map_def length_blank_map then_py_def say_def
      raise_def exact_sqrt_4 cap_blank_arcmin Let_def)

subsection \<open>No call of haperflux returns\<close>



subsection \<open>The statements behind line 355\<close>

text \<open>
  For \<open>noise_model = 1\<close> and a nonempty annulus, lines 357 to 389 return as error the
  product of line 383, taken over the pixels that line 351 left in \<open>bgpix\<close>.
\<close>

lemma haperflux_tail_model1:
  assumes "noise_model c = 1" and "bgpix sel \<noteq> []"
  shows "\<exists>fd bg. haperflux_tail hmap sel factor c =
           ([], Inr (fd,
                     fmul (mad_std (map (\<lambda>p. hmap ! p) (bgpix sel)))
                       (factor * sqrt (real (length (innerpix sel))
                          + pi / 2 * (real (length (innerpix sel))) ^ 2 / real (length (bgpix sel)))),
                     bg))"
  using assms by (simp add: haperflux_tail_def Let_def)

subsection \<open>The claims on haperflux\<close>

text \<open>
  Claim C1. The claim: the annulus is the set difference of the surviving pixels of
  the outer disc 2 and those of the outer disc 1. Line 351 is
  \<open>np.delete(outerpix2, outerpix1)\<close>, which removes from \<open>outerpix2\<close> the elements at
  the positions whose numbers are the pixel numbers of \<open>outerpix1\<close>. On the small sky
  the outer disc 1 is \<open>[1]\<close> and the outer disc 2 is \<open>[1, 6, 7]\<close>: the code deletes
  position 1 (pixel 6) and returns \<open>[1, 7]\<close>. Pixel 1 lies in the outer disc 1 and is in
  the annulus of the code; pixel 6 lies in the set difference and is not.
\<close>

theorem annulus_deletes_by_position:
  "haperflux_pixels cap_healpy flat_map 2 ang (600 / 60 * pi / 180) (600 / 60 * pi / 180)
     (1800 / 60 * pi / 180) nest
   = ([], Inr \<lparr>innerpix = [1], outerpix1 = [1], outerpix2 = [1, 6, 7], bgpix = [1, 7]\<rparr>)
   \<and> (1::nat) \<in> set [1, 7] \<and> (1::nat) \<notin> set [1, 6, 7] - set [1]
   \<and> (6::nat) \<notin> set [1, 7] \<and> (6::nat) \<in> set [1, 6, 7] - set [1]"
  by (simp add: cap_flat_arcmin)

text \<open>
  Claim C4. The claim: with \<open>noise_model = 0\<close> the returned error is
  \<open>std(map[annulus]) * factor * n_inner / sqrt(N_pts)\<close>. The call on the small sky
  returns nothing: it raises NameError on \<open>covnertToJy\<close> (line 355). The statements
  behind that line raise as well for \<open>noise_model = 0\<close>, whatever the map, the pixels
  and the factor: line 373 reads \<open>pix_area\<close>, a name bound only inside \<open>convertToJy\<close>.
\<close>

theorem haperflux_noise_model0_raises:
  "haperflux cap_healpy [''prog''] cap_call = ([], Inl (NameError ''covnertToJy''))
   \<and> haperflux_tail hmap sel factor cap_call = ([], Inl (NameError ''pix_area''))"
proof
  show "haperflux cap_healpy [''prog''] cap_call = ([], Inl (NameError ''covnertToJy''))"
    by (rule haperflux_flat)
  show "haperflux_tail hmap sel factor cap_call = ([], Inl (NameError ''pix_area''))"
    by (simp add: haperflux_tail_def cap_call_def raise_def Let_def)
qed

text \<open>
  Claim C5. The claim: with \<open>noise_model = 1\<close> the returned error is
  \<open>factor * sqrt(n_inner + (pi/2) * n_inner^2 / n_bg) * mad_std(map[annulus])\<close>. The
  call on the small sky with \<open>noise_model = 1\<close> returns nothing: it raises NameError on
  \<open>covnertToJy\<close> (line 355), before line 383 is reached.
\<close>

theorem haperflux_noise_model1_raises:
  "haperflux cap_healpy [''prog''] (cap_call\<lparr>noise_model := 1\<rparr>)
     = ([], Inl (NameError ''covnertToJy''))"
  by (simp add: haperflux_def cap_call_def load_map_def length_flat_map then_py_def say_def
      raise_def exact_sqrt_4 cap_flat_arcmin Let_def)

text \<open>What a call can have printed when it ends, if it did not print the usage message.\<close>

lemma fst_then_py:
  "fst (then_py m f) = (case snd m of Inl e \<Rightarrow> fst m | Inr a \<Rightarrow> fst m @ fst (f a))"
  by (simp add: then_py_def say_def split: sum.splits)

lemma load_map_output: "fst (load_map hp im nest) \<in> {[], reading_lines}"
  by (simp add: load_map_def say_def raise_def split: inmap.splits sum.splits prod.splits)

lemma haperflux_pixels_output:
  "fst (haperflux_pixels hp hmap nside ang r0 r1 r2 nest) \<in> {[], no_good_lines}"
  unfolding haperflux_pixels_def Let_def
  by (simp add: fst_then_py lift_def split: sum.splits)

lemma then_py_output:
  assumes "fst m \<in> {[], reading_lines}"
    and "\<And>a. fst (f a) \<in> {[], not_standard_lines, no_good_lines}"
  shows "fst (then_py m f) \<in>
           {[], not_standard_lines, no_good_lines, reading_lines,
            reading_lines @ not_standard_lines, reading_lines @ no_good_lines}"
proof (cases "snd m")
  case (Inl e)
  with assms(1) show ?thesis by (auto simp: fst_then_py)
next
  case (Inr a)
  with assms(1) assms(2) [of a] show ?thesis by (auto simp: fst_then_py)
qed

lemma body_output:
  "fst (case exact_sqrt k of
          None \<Rightarrow> (not_standard_lines, Inl SystemExit)
        | Some nside \<Rightarrow>
            if odd nside then (not_standard_lines, Inl SystemExit)
            else then_py (haperflux_pixels hp hmap nside ang r0 r1 r2 nest)
                   (\<lambda>sel. raise (NameError ''covnertToJy'')))
     \<in> {[], not_standard_lines, no_good_lines}"
  using haperflux_pixels_output [of hp hmap _ ang r0 r1 r2 nest]
  by (auto simp: fst_then_py raise_def split: option.splits sum.splits)

lemma haperflux_short_argv_output:
  assumes "\<not> 8 < length argv"
  shows "fst (haperflux hp argv c) \<in>
           {[], not_standard_lines, no_good_lines, reading_lines,
            reading_lines @ not_standard_lines, reading_lines @ no_good_lines}"
proof (cases "aper_inner_radius c")
  case None
  with assms show ?thesis by (simp add: haperflux_def raise_def)
next
  case (Some air)
  show ?thesis
    unfolding haperflux_def Let_def
    apply (simp only: assms if_False Some option.case)
    apply (rule then_py_output)
     apply (rule load_map_output)
    apply (rule body_output)
    done
qed

text \<open>
  Claim C10. \<open>haperflux\<close> reads the argument vector of the process, \<open>sys.argv\<close>, before
  anything else. For every healpy and every arguments of the call, it prints the five
  lines of the usage message and exits exactly when that vector has more than 8
  entries; with 8 entries or fewer no call ends that way.
\<close>

theorem haperflux_usage_exit:
  "haperflux hp argv c =
     (['''', ''SYNTAX:-'', '''',
       ''haperflux(inmap, freq, res_arcmin, lon, lat, aper_inner_radius, aper_outer_radius1, aper_outer_radius2, units, fd, fd_err, fd_bg,column, noise_model, /dopol, /nested)'',
       ''''], Inl SystemExit)
   \<longleftrightarrow> 8 < length argv"
proof (cases "8 < length argv")
  case True
  then show ?thesis by (simp add: haperflux_def usage_def)
next
  case False
  from haperflux_short_argv_output [OF False, of hp c] False show ?thesis
    by (auto simp: not_standard_lines_def no_good_lines_def reading_lines_def)
qed

theorem haperflux_usage_exit_witness:
  "haperflux cap_healpy [''phot.py'', ''a'', ''b'', ''c'', ''d'', ''e'', ''f'', ''g'', ''h''] cap_call
     = (['''', ''SYNTAX:-'', '''',
         ''haperflux(inmap, freq, res_arcmin, lon, lat, aper_inner_radius, aper_outer_radius1, aper_outer_radius2, units, fd, fd_err, fd_bg,column, noise_model, /dopol, /nested)'',
         ''''], Inl SystemExit)
   \<and> haperflux cap_healpy [''phot.py'', ''a'', ''b'', ''c'', ''d'', ''e'', ''f'', ''g''] cap_call
     \<noteq> (['''', ''SYNTAX:-'', '''',
         ''haperflux(inmap, freq, res_arcmin, lon, lat, aper_inner_radius, aper_outer_radius1, aper_outer_radius2, units, fd, fd_err, fd_bg,column, noise_model, /dopol, /nested)'',
         ''''], Inl SystemExit)
   \<and> haperflux cap_healpy [''prog''] cap_call = ([], Inl (NameError ''covnertToJy''))"
  using haperflux_usage_exit [of cap_healpy "[''phot.py'', ''a'', ''b'', ''c'', ''d'', ''e'', ''f'', ''g'', ''h'']" cap_call]
    haperflux_usage_exit [of cap_healpy "[''phot.py'', ''a'', ''b'', ''c'', ''d'', ''e'', ''f'', ''g'']" cap_call]
    haperflux_flat
  by simp

section \<open>Properties of healpix_phot\<close>

subsection \<open>The loops over targets and maps\<close>

lemma shape_put: "shape T ns nm \<Longrightarrow> shape (put T i j v) ns nm"
proof (cases "i < length T")
  case True
  assume "shape T ns nm"
  with True show ?thesis
    by (auto simp: shape_def put_def dest!: set_update_subset_insert [THEN subsetD])
next
  case False
  assume "shape T ns nm"
  with False show ?thesis by (simp add: put_def list_update_beyond)
qed

lemma put_nth:
  "shape T ns nm \<Longrightarrow> i < ns \<Longrightarrow> j < nm \<Longrightarrow> i' < ns \<Longrightarrow> j' < nm \<Longrightarrow>
   put T i j v ! i' ! j' = (if i' = i \<and> j' = j then v else T ! i' ! j')"
  by (auto simp: shape_def put_def nth_list_update)

lemma shape_zeros: "shape (zeros ns nm) ns nm"
  by (simp add: shape_def zeros_def)

lemma store_cell_shape:
  "shape3 tabs ns nm \<Longrightarrow> shape3 (store_cell radius apcor ct ct2 res tabs) ns nm"
  by (cases res; cases tabs) (auto simp: shape3_def store_cell_def Let_def intro!: shape_put)

text \<open>One pass of lines 230 to 241 writes the cell \<open>(ct, ct2)\<close> and no other.\<close>

lemma store_cell_cells:
  assumes "shape3 tabs ns nm" "ct < ns" "ct2 < nm" "i < ns" "j < nm"
  shows "cells (store_cell radius apcor ct ct2 res tabs) i j =
           (if i = ct \<and> j = ct2 then cell_result radius apcor res else cells tabs i j)"
proof -
  obtain fd err bg where res: "res = (fd, err, bg)" by (cases res)
  obtain F E B where tabs: "tabs = (F, E, B)" by (cases tabs)
  from assms tabs have s: "shape F ns nm" "shape E ns nm" "shape B ns nm"
    by (simp_all add: shape3_def)
  note sp = s s [THEN shape_put]
  show ?thesis
    using assms(2-5)
    by (simp add: res tabs store_cell_def Let_def cells_def cell_result_def
        put_nth [OF sp(1)] put_nth [OF sp(2)] put_nth [OF sp(3)]
        put_nth [OF sp(4)] put_nth [OF sp(5)] put_nth [OF sp(6)])
qed

lemma then_py_Inr: "m = (out, Inr a) \<Longrightarrow> then_py m f = (out @ fst (f a), snd (f a))"
  by (simp add: then_py_def say_def)

text \<open>With a radius passed, a returned result with a finite error is stored unscaled.\<close>

lemma cell_result_explicit_radius:
  "isfinite err \<Longrightarrow> cell_result (Some r) apcor (fd, err, bg) = (fd, err, bg)"
  by (simp add: cell_result_def)

text \<open>
  The loop over the targets, run on a column \<open>ct2\<close> from row \<open>ct\<close>: when every call
  of the photometry function returns, the loop returns, keeps the shape of the tables,
  writes the cells of its rows in that column and leaves every other cell as it was.
\<close>

lemma targets_loop_runs:
  assumes "shape3 tabs ns nm" "ct2 < nm" "ct + length ts \<le> ns"
    and "\<forall>t \<in> set ts. \<exists>out res. phot (cell_call mi t radius rinner router) = (out, Inr res)"
  shows "\<exists>out tabs'.
           targets_loop phot mi radius apcor rinner router ct2 ts ct tabs = (out, Inr tabs')
           \<and> shape3 tabs' ns nm
           \<and> (\<forall>i < ns. \<forall>j < nm. cells tabs' i j =
                 (if j = ct2 \<and> ct \<le> i \<and> i < ct + length ts
                  then cell_result radius apcor
                         (projr (snd (phot (cell_call mi (ts ! (i - ct)) radius rinner router))))
                  else cells tabs i j))"
  using assms
proof (induction ts arbitrary: ct tabs)
  case Nil
  then show ?case by auto
next
  case (Cons t ts)
  from Cons.prems(4) obtain out res
    where ph: "phot (cell_call mi t radius rinner router) = (out, Inr res)" by auto
  let ?tabs1 = "store_cell radius apcor ct ct2 res tabs"
  have ct: "ct < ns" using Cons.prems(3) by simp
  have sh1: "shape3 ?tabs1 ns nm" using Cons.prems(1) by (rule store_cell_shape)
  have "\<exists>out tabs'.
           targets_loop phot mi radius apcor rinner router ct2 ts (Suc ct) ?tabs1 = (out, Inr tabs')
           \<and> shape3 tabs' ns nm
           \<and> (\<forall>i < ns. \<forall>j < nm. cells tabs' i j =
                 (if j = ct2 \<and> Suc ct \<le> i \<and> i < Suc ct + length ts
                  then cell_result radius apcor
                         (projr (snd (phot (cell_call mi (ts ! (i - Suc ct)) radius rinner router))))
                  else cells ?tabs1 i j))"
    using Cons.prems by (intro Cons.IH sh1) auto
  then obtain out' tabs' where
    run: "targets_loop phot mi radius apcor rinner router ct2 ts (Suc ct) ?tabs1 = (out', Inr tabs')"
    and sh: "shape3 tabs' ns nm"
    and cs: "\<And>i j. i < ns \<Longrightarrow> j < nm \<Longrightarrow> cells tabs' i j =
                 (if j = ct2 \<and> Suc ct \<le> i \<and> i < Suc ct + length ts
                  then cell_result radius apcor
                         (projr (snd (phot (cell_call mi (ts ! (i - Suc ct)) radius rinner router))))
                  else cells ?tabs1 i j)"
    by blast
  have "targets_loop phot mi radius apcor rinner router ct2 (t # ts) ct tabs = (out @ out', Inr tabs')"
    by (simp add: then_py_Inr [OF ph] run)
  moreover have "cells tabs' i j =
                 (if j = ct2 \<and> ct \<le> i \<and> i < ct + length (t # ts)
                  then cell_result radius apcor
                         (projr (snd (phot (cell_call mi ((t # ts) ! (i - ct)) radius rinner router))))
                  else cells tabs i j)" if "i < ns" "j < nm" for i j
    using that ct Cons.prems(2)
    by (auto simp: cs store_cell_cells [OF Cons.prems(1)] ph nth_Cons' Suc_diff_Suc
        split: if_splits)
  ultimately show ?case using sh by blast
qed

text \<open>
  The loop over the maps, from column \<open>ct2\<close>: when every map can be read with its two
  cards and every call of the photometry function returns, the loop returns, and the
  cell of target \<open>i\<close> in each of its columns holds what lines 230 to 241 leave there.
\<close>

lemma maps_loop_runs:
  assumes "shape3 tabs (length targets) nm" "ct2 + length fs \<le> nm"
    and "\<forall>f \<in> set fs. \<exists>mi. map_meta hp radius f = Inr mi
           \<and> (\<forall>t \<in> set targets. \<exists>out res. phot (cell_call mi t radius rinner router) = (out, Inr res))"
  shows "\<exists>out tabs'.
           maps_loop phot hp radius apcor rinner router targets fs ct2 tabs = (out, Inr tabs')
           \<and> shape3 tabs' (length targets) nm
           \<and> (\<forall>i < length targets. \<forall>j < nm. cells tabs' i j =
                 (if ct2 \<le> j \<and> j < ct2 + length fs
                  then cell_result radius apcor
                         (projr (snd (phot (cell_call (projr (map_meta hp radius (fs ! (j - ct2))))
                                             (targets ! i) radius rinner router))))
                  else cells tabs i j))"
  using assms
proof (induction fs arbitrary: ct2 tabs)
  case Nil
  then show ?case by auto
next
  case (Cons f fs)
  let ?ns = "length targets"
  from Cons.prems(3) obtain mi where
    mm: "map_meta hp radius f = Inr mi"
    and ph: "\<forall>t \<in> set targets. \<exists>out res. phot (cell_call mi t radius rinner router) = (out, Inr res)"
    by auto
  have c2: "ct2 < nm" using Cons.prems(2) by simp
  from targets_loop_runs [OF Cons.prems(1) c2 _ ph, of 0 apcor]
  obtain out1 tabs1 where
    run1: "targets_loop phot mi radius apcor rinner router ct2 targets 0 tabs = (out1, Inr tabs1)"
    and sh1: "shape3 tabs1 ?ns nm"
    and cs1: "\<And>i j. i < ?ns \<Longrightarrow> j < nm \<Longrightarrow> cells tabs1 i j =
                 (if j = ct2
                  then cell_result radius apcor
                         (projr (snd (phot (cell_call mi (targets ! i) radius rinner router))))
                  else cells tabs i j)"
    by auto
  have "\<exists>out tabs'.
           maps_loop phot hp radius apcor rinner router targets fs (Suc ct2) tabs1 = (out, Inr tabs')
           \<and> shape3 tabs' ?ns nm
           \<and> (\<forall>i < ?ns. \<forall>j < nm. cells tabs' i j =
                 (if Suc ct2 \<le> j \<and> j < Suc ct2 + length fs
                  then cell_result radius apcor
                         (projr (snd (phot (cell_call (projr (map_meta hp radius (fs ! (j - Suc ct2))))
                                             (targets ! i) radius rinner router))))
                  else cells tabs1 i j))"
    using Cons.prems by (intro Cons.IH sh1) auto
  then obtain out2 tabs2 where
    run2: "maps_loop phot hp radius apcor rinner router targets fs (Suc ct2) tabs1 = (out2, Inr tabs2)"
    and sh2: "shape3 tabs2 ?ns nm"
    and cs2: "\<And>i j. i < ?ns \<Longrightarrow> j < nm \<Longrightarrow> cells tabs2 i j =
                 (if Suc ct2 \<le> j \<and> j < Suc ct2 + length fs
                  then cell_result radius apcor
                         (projr (snd (phot (cell_call (projr (map_meta hp radius (fs ! (j - Suc ct2))))
                                             (targets ! i) radius rinner router))))
                  else cells tabs1 i j)"
    by blast
  have "maps_loop phot hp radius apcor rinner router targets (f # fs) ct2 tabs
          = (out1 @ out2, Inr tabs2)"
    by (simp add: mm lift_def then_py_Inr [OF refl] then_py_Inr [OF run1] run2)
  moreover have "cells tabs2 i j =
                 (if ct2 \<le> j \<and> j < ct2 + length (f # fs)
                  then cell_result radius apcor
                         (projr (snd (phot (cell_call (projr (map_meta hp radius ((f # fs) ! (j - ct2))))
                                             (targets ! i) radius rinner router))))
                  else cells tabs i j)" if "i < ?ns" "j < nm" for i j
    using that
    by (auto simp: cs2 cs1 mm nth_Cons' Suc_diff_Suc split: if_splits)
  ultimately show ?case using sh2 by blast
qed

text \<open>
  The loop of \<open>healpix_phot\<close> over any photometry function \<open>phot\<close>. Let the correction
  factor exist, let neither file have exactly one row, let every map be readable with
  its two cards, and let every call of \<open>phot\<close> return. Then the batch returns three
  dense tables of \<open>length targets\<close> rows and \<open>length fn\<close> columns, and a cell whose call
  returned \<open>(fd, err, bg)\<close> with a non-finite \<open>err\<close> holds \<open>-1\<close> as flux, \<open>-1\<close> as error
  and \<open>bg\<close>, as returned, as background.
\<close>

lemma healpix_phot_with_nonfinite_error_sentinel:
  assumes "apcor_of radius rinner router = Inr apcor"
    and "galactic"
    and "length targets \<noteq> 1" and "length fn \<noteq> 1"
    and "\<forall>f \<in> set fn. \<exists>mi. map_meta hp radius f = Inr mi
           \<and> (\<forall>t \<in> set targets. \<exists>out res. phot (cell_call mi t radius rinner router) = (out, Inr res))"
    and "ct < length targets" and "ct2 < length fn"
    and "map_meta hp radius (fn ! ct2) = Inr mi"
    and "phot (cell_call mi (targets ! ct) radius rinner router) = (out, Inr (fd, err, bg))"
    and "\<not> isfinite err"
  shows "\<exists>out' fd_all fd_err_all fd_bg_all.
           healpix_phot_with phot hp targets fn radius rinner router galactic
             = (out', Inr (fd_all, fd_err_all, fd_bg_all))
           \<and> fd_all ! ct ! ct2 = Fin (- 1)
           \<and> fd_err_all ! ct ! ct2 = Fin (- 1)
           \<and> fd_bg_all ! ct ! ct2 = bg
           \<and> shape fd_all (length targets) (length fn)
           \<and> shape fd_err_all (length targets) (length fn)
           \<and> shape fd_bg_all (length targets) (length fn)"
proof -
  let ?ns = "length targets" and ?nm = "length fn"
  let ?z = "(zeros ?ns ?nm, zeros ?ns ?nm, zeros ?ns ?nm)"
  have sh0: "shape3 ?z ?ns ?nm" by (simp add: shape3_def shape_zeros)
  from maps_loop_runs [OF sh0 _ assms(5), of 0 apcor]
  obtain out' tabs' where
    run: "maps_loop phot hp radius apcor rinner router targets fn 0 ?z = (out', Inr tabs')"
    and sh: "shape3 tabs' ?ns ?nm"
    and cs: "\<And>i j. i < ?ns \<Longrightarrow> j < ?nm \<Longrightarrow> cells tabs' i j =
               cell_result radius apcor
                 (projr (snd (phot (cell_call (projr (map_meta hp radius (fn ! j)))
                                     (targets ! i) radius rinner router))))"
    by auto
  obtain F E B where t: "tabs' = (F, E, B)" by (cases tabs')
  have "cells tabs' ct ct2 = (Fin (- 1), Fin (- 1), bg)"
    using assms(6-10) by (simp add: cs cell_result_def)
  with t have c: "F ! ct ! ct2 = Fin (- 1)" "E ! ct ! ct2 = Fin (- 1)" "B ! ct ! ct2 = bg"
    by (simp_all add: cells_def)
  have "healpix_phot_with phot hp targets fn radius rinner router galactic = (out', Inr (F, E, B))"
    using assms(1-4) run t
    by (simp add: healpix_phot_with_def genfromtxt_len_def lift_def then_py_Inr [OF refl] Let_def)
  with c sh t show ?thesis by (simp add: shape3_def)
qed

subsection \<open>The small sky, evaluated\<close>

lemma freq_index_100: "freq_index (PInt 100) = Inr 3"
  by code_simp

lemma apcor_cap:
  "apcor_of (Some (PInt 600)) (PInt 600) (PInt 1800) = Inr (1 / (7 / 8 + 1 / 2 ^ 36))"
  by (simp add: apcor_of_def Let_def power_divide)

text \<open>
  With int radii the quotients of lines 189 and 190 are floors: for \<open>radius = 1000\<close>,
  \<open>rinner = 600\<close> and \<open>router = 1800\<close> they are 0 and 1, the bracket of line 191 is zero
  and its inverse raises.
\<close>

lemma apcor_of_int_floor:
  "apcor_of (Some (PInt 1000)) (PInt 600) (PInt 1800) = Inl ZeroDivisionError"
  by (simp add: apcor_of_def Let_def)

lemma map_meta_flat:
  "map_meta cap_healpy (Some (PInt 600)) ''flat.fits''
     = Inr \<lparr>xtmp_data = flat_map, map_units = ''Jy/pixel'', currfreq = 100, radval = PInt 600\<rparr>"
  by (simp add: map_meta_def cap_healpy_def cap_header_def freq_index_100 py_int_def)

lemma map_meta_blank:
  "map_meta cap_healpy (Some (PInt 600)) ''blank.fits''
     = Inr \<lparr>xtmp_data = blank_map, map_units = ''Jy/pixel'', currfreq = 100, radval = PInt 600\<rparr>"
  by (simp add: map_meta_def cap_healpy_def cap_header_def freq_index_100 py_int_def)

lemma cell_call_blank:
  "cell_call \<lparr>xtmp_data = blank_map, map_units = ''Jy/pixel'', currfreq = 100, radval = PInt 600\<rparr>
     cap_target (Some (PInt 600)) (PInt 600) (PInt 1800) = cap_call\<lparr>inmap := Array blank_map\<rparr>"
  by (simp add: cell_call_def cap_target_def cap_call_def)


text \<open>
  The loop of \<open>healpix_phot\<close> over the stand-in function that returns: two targets on
  two maps give three tables of 2 by 2, and the cell of the target at longitude 135 on
  the second map, whose call returned \<open>(NaN, NaN, 5.0)\<close>, holds \<open>(-1, -1, 5.0)\<close>.
\<close>

lemma nan_phot_batch:
  "\<exists>out' fd_all fd_err_all fd_bg_all.
     healpix_phot_with nan_phot cap_healpy [far_target, cap_target] [''flat.fits'', ''blank.fits'']
        (Some (PInt 600)) (PInt 600) (PInt 1800) True
       = (out', Inr (fd_all, fd_err_all, fd_bg_all))
     \<and> fd_all ! 1 ! 1 = Fin (- 1)
     \<and> fd_err_all ! 1 ! 1 = Fin (- 1)
     \<and> fd_bg_all ! 1 ! 1 = Fin 5
     \<and> shape fd_all 2 2 \<and> shape fd_err_all 2 2 \<and> shape fd_bg_all 2 2"
proof -
  let ?targets = "[far_target, cap_target]"
  let ?fn = "[''flat.fits'', ''blank.fits'']"
  let ?mi = "\<lparr>xtmp_data = blank_map, map_units = ''Jy/pixel'', currfreq = 100, radval = PInt 600\<rparr>"
  have all: "\<forall>f \<in> set ?fn. \<exists>mi. map_meta cap_healpy (Some (PInt 600)) f = Inr mi
           \<and> (\<forall>t \<in> set ?targets. \<exists>out res.
                 nan_phot (cell_call mi t (Some (PInt 600)) (PInt 600) (PInt 1800)) = (out, Inr res))"
    by (simp add: map_meta_flat map_meta_blank nan_phot_def)
  have mm: "map_meta cap_healpy (Some (PInt 600)) (?fn ! 1) = Inr ?mi"
    by (simp add: map_meta_blank)
  have ph: "nan_phot (cell_call ?mi (?targets ! 1) (Some (PInt 600)) (PInt 600) (PInt 1800))
              = ([], Inr (NaN, NaN, Fin 5))"
    by (simp add: nan_phot_def cell_call_def cap_target_def)
  have b1: "1 < length ?targets" and b2: "1 < length ?fn" and nf: "\<not> isfinite NaN"
    by simp_all
  have n1: "length ?targets \<noteq> 1" and n2: "length ?fn \<noteq> 1"
    by simp_all
  have l1: "length ?targets = 2" and l2: "length ?fn = 2"
    by simp_all
  from healpix_phot_with_nonfinite_error_sentinel [OF apcor_cap TrueI n1 n2 all b1 b2 mm ph nf]
  show ?thesis unfolding l1 l2 .
qed

subsection \<open>The claims on healpix_phot\<close>

text \<open>
  Claim C2. The claim: when a surviving pixel count is zero the measurement fails with
  flux and error NaN, and the batch goes on with the remaining cells. Lines 341 to
  343 assign NaN to \<open>fd\<close> and \<open>fd_err\<close> and then call \<open>exit()\<close>: nothing is returned, and
  the exit is caught nowhere. On the small sky the measurement on the blank map
  exits, and so does the batch of two targets over the blank map and the flat map, at
  its first cell: the second target is never measured and the flat map is never read.
\<close>

theorem no_good_pixels_exits_batch:
  "haperflux cap_healpy [''prog''] (cap_call\<lparr>inmap := Array blank_map\<rparr>)
     = (['''', ''***No good pixels inside aperture!***'', ''''], Inl SystemExit)
   \<and> healpix_phot cap_healpy [''prog''] [cap_target, far_target] [''blank.fits'', ''flat.fits'']
       (Some (PInt 600)) (PInt 600) (PInt 1800) True
     = (['''', ''***No good pixels inside aperture!***'', ''''], Inl SystemExit)"
  by (simp add: healpix_phot_def healpix_phot_with_def apcor_cap genfromtxt_len_def lift_def
      then_py_def say_def map_meta_blank cell_call_blank haperflux_blank no_good_lines_def Let_def)

text \<open>
  Claim C6. The claim: the aperture correction is multiplied into flux and error
  exactly when the caller passes no radius. With \<open>radius = None\<close> line 189,
  \<open>k1 = rinner/radius\<close>, raises TypeError before a target or a map is touched, whatever
  the other arguments: no cell is ever scaled.
\<close>

theorem healpix_phot_no_radius_type_error:
  "healpix_phot hp argv targets fn None rinner router galactic = ([], Inl TypeError)"
  by (simp add: healpix_phot_def healpix_phot_with_def apcor_of_def lift_def then_py_def)


end
